theory Spec2Isabelle
  imports Complex_Main "HOL-Library.Sublist"
begin

section \<open>JavaScript strings\<close>

text \<open>
  The assistant tool works on JavaScript strings.  A string is modelled as a
  \<^typ>\<open>string\<close>, one \<^typ>\<open>char\<close> per UTF-16 code unit; the model covers the
  code units below 256.  In that range the white space of \<^verbatim>\<open>String.prototype.trim\<close>
  and of the regular expression class \<^verbatim>\<open>\s\<close> is TAB, LF, VT, FF, CR, SPACE and
  NBSP, and the line terminators (which \<^verbatim>\<open>.\<close> does not match) are LF and CR.
\<close>

definition isWhiteSpace :: "char \<Rightarrow> bool" where
  "isWhiteSpace c \<longleftrightarrow>
     c = CHR 0x09 \<or> c = CHR 0x0A \<or> c = CHR 0x0B \<or> c = CHR 0x0C \<or> c = CHR 0x0D \<or>
     c = CHR 0x20 \<or> c = CHR 0xA0"

definition isLineTerminator :: "char \<Rightarrow> bool" where
  "isLineTerminator c \<longleftrightarrow> c = CHR 0x0A \<or> c = CHR 0x0D"

definition trim :: "string \<Rightarrow> string" where
  "trim s = rev (dropWhile isWhiteSpace (rev (dropWhile isWhiteSpace s)))"

text \<open>\<^verbatim>\<open>s.substring(i)\<close> for \<open>0 \<le> i\<close>: the rest of the string, empty beyond its end.\<close>

definition substring :: "string \<Rightarrow> nat \<Rightarrow> string" where
  "substring s i = drop i s"

text \<open>
  \<^verbatim>\<open>s.indexOf(c)\<close> for a one-character search string; \<open>None\<close> stands for \<open>-1\<close>.
\<close>

fun indexOfFrom :: "char \<Rightarrow> nat \<Rightarrow> string \<Rightarrow> nat option" where
  "indexOfFrom c i [] = None"
| "indexOfFrom c i (x # xs) = (if x = c then Some i else indexOfFrom c (Suc i) xs)"

definition indexOf :: "string \<Rightarrow> char \<Rightarrow> nat option" where
  "indexOf s c = indexOfFrom c 0 s"

text \<open>
  \<^verbatim>\<open>text.lastIndexOf(marker)\<close>: the greatest index at which \<open>marker\<close> occurs in
  \<open>text\<close>, \<open>None\<close> for \<open>-1\<close>.  The scan walks the text once and keeps the
  index of the latest occurrence seen; the empty marker occurs at every index
  up to the length of the text.
\<close>

fun lastIndexOfFrom :: "string \<Rightarrow> nat \<Rightarrow> nat option \<Rightarrow> string \<Rightarrow> nat option" where
  "lastIndexOfFrom marker i found [] = (if marker = [] then Some i else found)"
| "lastIndexOfFrom marker i found (x # xs) =
     lastIndexOfFrom marker (Suc i) (if prefix marker (x # xs) then Some i else found) xs"

definition lastIndexOf :: "string \<Rightarrow> string \<Rightarrow> nat option" where
  "lastIndexOf text marker = lastIndexOfFrom marker 0 None text"

section \<open>Extraction of an embedded JSON document\<close>

text \<open>
  The loop of \<^verbatim>\<open>extractJson\<close> over the characters from the first opening
  brace on.  The arguments are the loop variables \<^verbatim>\<open>count\<close>, \<^verbatim>\<open>inString\<close>,
  \<^verbatim>\<open>escape\<close> and \<^verbatim>\<open>jsonChars\<close>, and the characters still to be read.  The
  branches are those of the source, in its order: the test for the double
  quote is an \<^verbatim>\<open>else if\<close> of \<^verbatim>\<open>if (!inString)\<close>.  \<^verbatim>\<open>continue\<close> skips the
  final \<^verbatim>\<open>escape = false\<close>; every other path runs it.  Leaving the loop
  without a return gives \<^verbatim>\<open>null\<close>.
\<close>

fun scanJson :: "int \<Rightarrow> bool \<Rightarrow> bool \<Rightarrow> string \<Rightarrow> string \<Rightarrow> string option" where
  "scanJson count inString escape jsonChars [] = None"
| "scanJson count inString escape jsonChars (char # rest) =
     (if \<not> inString then
        (if char = CHR ''{'' then
           scanJson (count + 1) inString False (jsonChars @ [char]) rest
         else if char = CHR ''}'' then
           (if count - 1 = 0 then Some (jsonChars @ [char])
            else scanJson (count - 1) inString False (jsonChars @ [char]) rest)
         else scanJson count inString False (jsonChars @ [char]) rest)
      else if char = CHR 0x5C \<and> \<not> escape then
        scanJson count inString True (jsonChars @ [char]) rest
      else if char = CHR 0x22 \<and> \<not> escape then
        scanJson count (\<not> inString) False (jsonChars @ [char]) rest
      else scanJson count inString False (jsonChars @ [char]) rest)"

definition extractJson :: "string \<Rightarrow> string \<Rightarrow> string option" where
  "extractJson text marker =
     (case lastIndexOf text marker of
        None \<Rightarrow> None
      | Some markerPos \<Rightarrow>
          (let lastPart = trim (substring text (markerPos + length marker)) in
           case indexOf lastPart (CHR ''{'') of
             None \<Rightarrow> None
           | Some start \<Rightarrow> scanJson 0 False False [] (drop start lastPart)))"

section \<open>Regular-expression replacement\<close>

text \<open>
  \<^verbatim>\<open>s.replace(/re/g, r)\<close> scans the string from the left.  At each position the
  expression is tried on the rest of the string; a match is replaced and the
  scan goes on behind it, otherwise the character is kept.  A matcher gives
  the replacement text and the number of characters matched; every expression
  of this program matches at least one character, and none looks behind the
  position it is tried at.  The argument \<open>skip\<close> counts the characters of the
  current match that are still to be dropped.
\<close>

type_synonym matcher = "string \<Rightarrow> (string \<times> nat) option"

fun replaceAll :: "matcher \<Rightarrow> nat \<Rightarrow> string \<Rightarrow> string" where
  "replaceAll m skip [] = []"
| "replaceAll m skip (c # cs) =
     (if 0 < skip then replaceAll m (skip - 1) cs
      else (case m (c # cs) of
              None \<Rightarrow> c # replaceAll m 0 cs
            | Some (out, n) \<Rightarrow> out @ replaceAll m (n - 1) cs))"

text \<open>A literal piece of an expression: its length if the string starts with it.\<close>

definition lit :: "string \<Rightarrow> string \<Rightarrow> nat option" where
  "lit p s = (if prefix p s then Some (length p) else None)"

text \<open>
  The lazy \<^verbatim>\<open>.*?\<close> followed by the rest \<open>k\<close> of the expression: the rest is
  tried first, and only when it fails one more character is consumed.  Without
  the \<^verbatim>\<open>s\<close> flag the dot does not match a line terminator.  The result is the
  text consumed by the dot and the result of \<open>k\<close>.
\<close>

fun lazyDot :: "bool \<Rightarrow> (string \<Rightarrow> 'r option) \<Rightarrow> string \<Rightarrow> (string \<times> 'r) option" where
  "lazyDot dotAll k [] = (case k [] of None \<Rightarrow> None | Some r \<Rightarrow> Some ([], r))"
| "lazyDot dotAll k (c # cs) =
     (case k (c # cs) of
        Some r \<Rightarrow> Some ([], r)
      | None \<Rightarrow>
          (if \<not> dotAll \<and> isLineTerminator c then None
           else (case lazyDot dotAll k cs of
                   None \<Rightarrow> None
                 | Some (cap, r) \<Rightarrow> Some (c # cap, r))))"

text \<open>
  \<^verbatim>\<open>/open(.*?)close/g\<close> with the replacement \<^verbatim>\<open>lead$1trail\<close>, for literal
  opening and closing tags.
\<close>

definition enclosed :: "string \<Rightarrow> string \<Rightarrow> string \<Rightarrow> string \<Rightarrow> matcher" where
  "enclosed opn cls lead trail s =
     (if prefix opn s then
        (case lazyDot False (lit cls) (drop (length opn) s) of
           None \<Rightarrow> None
         | Some (cap, n) \<Rightarrow> Some (lead @ cap @ trail, length opn + length cap + n))
      else None)"

text \<open>A literal expression \<^verbatim>\<open>/p/g\<close> with a literal replacement.\<close>

definition literal :: "string \<Rightarrow> string \<Rightarrow> matcher" where
  "literal p out s = (if prefix p s then Some (out, length p) else None)"

definition isLevel :: "char \<Rightarrow> bool" where
  "isLevel c \<longleftrightarrow> c \<in> set ''123456''"

text \<open>\<^verbatim>\<open>parseInt\<close> on the one digit captured by \<^verbatim>\<open>([1-6])\<close>.\<close>

definition parseInt :: "char \<Rightarrow> nat" where
  "parseInt c = of_char c - 48"

text \<open>\<^verbatim>\<open>/<h([1-6])>(.*?)<\/h[1-6]>/g\<close>, replaced by the function of the source.\<close>

definition closeHeader :: "string \<Rightarrow> nat option" where
  "closeHeader s =
     (case s of
        a # b # c # d # e # _ \<Rightarrow>
          (if [a, b, c] = ''</h'' \<and> isLevel d \<and> e = CHR ''>'' then Some 5 else None)
      | _ \<Rightarrow> None)"

definition header :: matcher where
  "header s =
     (case s of
        a # b # level # d # rest \<Rightarrow>
          (if [a, b] = ''<h'' \<and> isLevel level \<and> d = CHR ''>'' then
             (case lazyDot False closeHeader rest of
                None \<Rightarrow> None
              | Some (text, n) \<Rightarrow>
                  Some (replicate (parseInt level) (CHR ''#'') @ '' '' @ text @ [CHR 0x0A, CHR 0x0A],
                        4 + length text + n))
           else None)
      | _ \<Rightarrow> None)"

text \<open>
  \<^verbatim>\<open>/<div class="codehilite">.*?<pre><span><\/span><code>(.*?)<\/code><\/pre><\/div>/gs\<close>
  with the replacement of three backquotes, a newline, \<^verbatim>\<open>$1\<close>, a newline,
  three backquotes and a newline.
\<close>

definition codeOpen :: string where
  "codeOpen = ''<pre><span></span><code>''"

definition codeClose :: string where
  "codeClose = ''</code></pre></div>''"

definition codeBody :: "string \<Rightarrow> (string \<times> nat) option" where
  "codeBody s =
     (if prefix codeOpen s then
        (case lazyDot True (lit codeClose) (drop (length codeOpen) s) of
           None \<Rightarrow> None
         | Some (cap, n) \<Rightarrow> Some (cap, length codeOpen + length cap + n))
      else None)"

definition divOpen :: string where
  "divOpen = ''<div class='' @ [CHR 0x22] @ ''codehilite'' @ [CHR 0x22] @ ''>''"

definition codeBlock :: matcher where
  "codeBlock s =
     (if prefix divOpen s then
        (case lazyDot True codeBody (drop (length divOpen) s) of
           None \<Rightarrow> None
         | Some (skipped, (cap, n)) \<Rightarrow>
             Some (''```'' @ [CHR 0x0A] @ cap @ [CHR 0x0A] @ ''```'' @ [CHR 0x0A],
                   length divOpen + length skipped + n))
      else None)"

text \<open>\<^verbatim>\<open>/<br\s*\/?>/g\<close> replaced by a newline.\<close>

definition lineBreak :: matcher where
  "lineBreak s =
     (if prefix ''<br'' s then
        (let r = drop 3 s;
             ws = takeWhile isWhiteSpace r;
             r1 = dropWhile isWhiteSpace r;
             slash = (case r1 of c # _ \<Rightarrow> c = CHR ''/'' | [] \<Rightarrow> False);
             r2 = (if slash then tl r1 else r1)
         in (case r2 of
               c # _ \<Rightarrow>
                 (if c = CHR ''>'' then
                    Some ([CHR 0x0A], 3 + length ws + (if slash then 1 else 0) + 1)
                  else None)
             | [] \<Rightarrow> None))
      else None)"

text \<open>\<^verbatim>\<open>/<[^>]+>/g\<close> replaced by the empty string.\<close>

definition anyTag :: matcher where
  "anyTag s =
     (case s of
        c # r \<Rightarrow>
          (if c = CHR ''<'' then
             (let body = takeWhile (\<lambda>x. x \<noteq> CHR ''>'') r in
              if body \<noteq> [] \<and> length body < length r then Some ([], length body + 2) else None)
           else None)
      | [] \<Rightarrow> None)"

text \<open>\<^verbatim>\<open>/\n{3,}/g\<close> replaced by two newlines.\<close>

definition newlines :: matcher where
  "newlines s =
     (let run = takeWhile (\<lambda>x. x = CHR 0x0A) s in
      if 3 \<le> length run then Some ([CHR 0x0A, CHR 0x0A], length run) else None)"

text \<open>\<^verbatim>\<open>/\s+/g\<close> replaced by one space.\<close>

definition spaces :: matcher where
  "spaces s =
     (let run = takeWhile isWhiteSpace s in
      if run \<noteq> [] then Some ('' '', length run) else None)"

text \<open>\<^verbatim>\<open>/<\/?(p|h[1-6]|div)>/g\<close> replaced by a newline.\<close>

definition blockTag :: matcher where
  "blockTag s =
     (case s of
        c # r \<Rightarrow>
          (if c = CHR ''<'' then
             (let slash = (case r of x # _ \<Rightarrow> x = CHR ''/'' | [] \<Rightarrow> False);
                  r1 = (if slash then tl r else r);
                  k = (if slash then 2 else 1)
              in if prefix ''p>'' r1 then Some ([CHR 0x0A], k + 2)
                 else (case r1 of
                         x # y # z # _ \<Rightarrow>
                           (if x = CHR ''h'' \<and> isLevel y \<and> z = CHR ''>'' then Some ([CHR 0x0A], k + 3)
                            else if prefix ''div>'' r1 then Some ([CHR 0x0A], k + 4)
                            else None)
                       | _ \<Rightarrow> None))
           else None)
      | [] \<Rightarrow> None)"

section \<open>The reply formatter\<close>

definition htmlToMarkdown :: "string \<Rightarrow> string" where
  "htmlToMarkdown html =
     trim (replaceAll newlines 0
       (replaceAll (literal ''&amp;'' ''&'') 0
       (replaceAll (literal ''&#x27;'' [CHR 0x27]) 0
       (replaceAll (literal ''&quot;'' [CHR 0x22]) 0
       (replaceAll (literal ''&gt;'' ''>'') 0
       (replaceAll (literal ''&lt;'' ''<'') 0
       (replaceAll anyTag 0
       (replaceAll lineBreak 0
       (replaceAll (enclosed ''<p>'' ''</p>'' [] [CHR 0x0A, CHR 0x0A]) 0
       (replaceAll (literal ''<p></p>'' []) 0
       (replaceAll (enclosed ''<li>'' ''</li>'' ''- '' [CHR 0x0A]) 0
       (replaceAll (literal ''</ul>'' [CHR 0x0A]) 0
       (replaceAll (literal ''<ul>'' []) 0
       (replaceAll (literal ''</ol>'' [CHR 0x0A]) 0
       (replaceAll (literal ''<ol>'' []) 0
       (replaceAll (enclosed ''<code>'' ''</code>'' ''`'' ''`'') 0
       (replaceAll codeBlock 0
       (replaceAll (enclosed ''<em>'' ''</em>'' ''*'' ''*'') 0
       (replaceAll (enclosed ''<strong>'' ''</strong>'' ''**'' ''**'') 0
       (replaceAll header 0 html))))))))))))))))))))"

definition htmlToPlain :: "string \<Rightarrow> string" where
  "htmlToPlain html =
     trim (replaceAll spaces 0
       (replaceAll newlines 0
       (replaceAll anyTag 0
       (replaceAll (enclosed ''<li>'' ''</li>'' ''- '' [CHR 0x0A]) 0
       (replaceAll lineBreak 0
       (replaceAll blockTag 0 html))))))"

section \<open>Values, errors and the environment\<close>

text \<open>
  The values that \<^verbatim>\<open>JSON.parse\<close> produces.  A property that an object does
  not have reads as \<^verbatim>\<open>undefined\<close>, modelled by \<open>None\<close>.  Numbers take part
  only through their truthiness, which is that of being different from zero.
\<close>

datatype json =
    JNull
  | JBool bool
  | JNum rat
  | JStr string
  | JArr "json list"
  | JObj "(string \<times> json) list"

fun truthy :: "json \<Rightarrow> bool" where
  "truthy JNull = False"
| "truthy (JBool b) = b"
| "truthy (JNum n) = (n \<noteq> 0)"
| "truthy (JStr s) = (s \<noteq> [])"
| "truthy (JArr xs) = True"
| "truthy (JObj kvs) = True"

text \<open>
  An error object with its \<^verbatim>\<open>name\<close> and \<^verbatim>\<open>message\<close>.  Every value thrown by this
  program, by \<^verbatim>\<open>fetch\<close> and by \<^verbatim>\<open>JSON.parse\<close> is an instance of \<^verbatim>\<open>Error\<close>.
\<close>

datatype exn = Exn (name: string) (message: string)

abbreviation Error :: "string \<Rightarrow> exn" where
  "Error msg \<equiv> Exn ''Error'' msg"

abbreviation TypeError :: "string \<Rightarrow> exn" where
  "TypeError msg \<equiv> Exn ''TypeError'' msg"

text \<open>Reading the property \<open>k\<close> of a value: \<^verbatim>\<open>null\<close> has no properties.\<close>

fun getProp :: "json \<Rightarrow> string \<Rightarrow> exn + json option" where
  "getProp JNull k = Inl (TypeError (''Cannot read properties of null (reading '' @ [CHR 0x27] @ k @ [CHR 0x27] @ '')''))"
| "getProp (JObj kvs) k = Inr (map_of kvs k)"
| "getProp v k = Inr None"

definition toString :: "exn \<Rightarrow> string" where
  "toString e =
     (if name e = [] then message e
      else if message e = [] then name e
      else name e @ '': '' @ message e)"

text \<open>\<^verbatim>\<open>formatError\<close> of \<^verbatim>\<open>utils/formatting.js\<close>, on an instance of \<^verbatim>\<open>Error\<close>.\<close>

definition formatError :: "exn \<Rightarrow> string" where
  "formatError error =
     ''Error: '' @ (if message error \<noteq> [] then message error else toString error)"

text \<open>Truthiness of a string that may be \<^verbatim>\<open>undefined\<close>.\<close>

fun truthyStr :: "string option \<Rightarrow> bool" where
  "truthyStr None = False"
| "truthyStr (Some s) = (s \<noteq> [])"

text \<open>
  What the outcome of reading \<^verbatim>\<open>~/.kagi_session_token\<close> can be: its content,
  no such file, or another failure with its message.
\<close>

datatype fileRead = Content string | ENOENT | ReadFailure string

text \<open>The variables of \<^verbatim>\<open>process.env\<close> that are read, and the token file.\<close>

record env =
  KAGI_DEFAULT_MODEL :: "string option"
  KAGI_MODEL_LIST :: "string option"
  KAGI_SEARCH_COOKIE :: "string option"
  KAGI_SESSION_TOKEN :: "string option"
  KAGI_SUMMARIZER_ENGINE :: "string option"
  tokenFile :: fileRead

section \<open>Token resolution\<close>

definition readTokenFromFile :: "env \<Rightarrow> exn + string option" where
  "readTokenFromFile e =
     (case tokenFile e of
        Content c \<Rightarrow> (let token = trim c in Inr (if token \<noteq> [] then Some token else None))
      | ENOENT \<Rightarrow> Inr None
      | ReadFailure msg \<Rightarrow> Inl (Error (''Failed to read token file: '' @ msg)))"

definition isValidTokenFormat :: "string \<Rightarrow> bool" where
  "isValidTokenFormat token \<longleftrightarrow> 0 < length (trim token)"

definition noTokenMessage :: string where
  "noTokenMessage =
     ''No valid Kagi session token found. Please either:'' @ [CHR 0x0A] @
     ''1. Set KAGI_SESSION_TOKEN environment variable, or'' @ [CHR 0x0A] @
     ''2. Save your token to ~/.kagi_session_token file'' @ [CHR 0x0A, CHR 0x0A] @
     ''Get your token from: https://kagi.com/settings?p=api''"

definition resolveToken :: "env \<Rightarrow> exn + string" where
  "resolveToken e =
     (let envToken = KAGI_SESSION_TOKEN e in
      if truthyStr envToken \<and> isValidTokenFormat (case envToken of Some t \<Rightarrow> t | None \<Rightarrow> [])
      then Inr (trim (case envToken of Some t \<Rightarrow> t | None \<Rightarrow> []))
      else (case readTokenFromFile e of
              Inl err \<Rightarrow> Inl err
            | Inr fileToken \<Rightarrow>
                (case fileToken of
                   Some t \<Rightarrow>
                     (if t \<noteq> [] \<and> isValidTokenFormat t then Inr t
                      else Inl (Error noTokenMessage))
                 | None \<Rightarrow> Inl (Error noTokenMessage))))"

record config =
  cfg_token :: string
  cfg_engine :: string

definition getEnvironmentConfig :: "env \<Rightarrow> exn + config" where
  "getEnvironmentConfig e =
     (case resolveToken e of
        Inl err \<Rightarrow> Inl err
      | Inr t \<Rightarrow>
          Inr \<lparr>cfg_token = t,
               cfg_engine = (if truthyStr (KAGI_SUMMARIZER_ENGINE e)
                         then (case KAGI_SUMMARIZER_ENGINE e of Some x \<Rightarrow> x | None \<Rightarrow> [])
                         else ''default'')\<rparr>)"

section \<open>Model resolution\<close>

text \<open>\<^verbatim>\<open>s.split(",")\<close>: the pieces between the separators, empty ones included.\<close>

fun split :: "char \<Rightarrow> string \<Rightarrow> string list" where
  "split sep [] = [[]]"
| "split sep (c # cs) =
     (if c = sep then [] # split sep cs
      else (case split sep cs of
              x # xs \<Rightarrow> (c # x) # xs
            | [] \<Rightarrow> [[c]]))"

fun join :: "string \<Rightarrow> string list \<Rightarrow> string" where
  "join sep [] = []"
| "join sep [x] = x"
| "join sep (x # y # ys) = x @ sep @ join sep (y # ys)"

definition modelListNotSet :: string where
  "modelListNotSet =
     ''KAGI_MODEL_LIST environment variable not set. Please provide a comma-separated list of available models (e.g., '' @
     [CHR 0x27] @ ''o3-pro,claude-4-sonnet,gemini-2-5-pro'' @ [CHR 0x27] @ '')''"

definition getAvailableModels :: "env \<Rightarrow> exn + string list" where
  "getAvailableModels e =
     (case KAGI_MODEL_LIST e of
        None \<Rightarrow> Inl (Error modelListNotSet)
      | Some modelList \<Rightarrow>
          (if modelList = [] then Inl (Error modelListNotSet)
           else Inr (filter (\<lambda>m. 0 < length m) (map trim (split (CHR '','') modelList)))))"

text \<open>
  \<^verbatim>\<open>availableModels[0]\<close> of an empty list is \<^verbatim>\<open>undefined\<close>, so the default model
  is a string or \<^verbatim>\<open>undefined\<close>.
\<close>

definition getDefaultModel :: "env \<Rightarrow> exn + string option" where
  "getDefaultModel e =
     (let defaultModel = KAGI_DEFAULT_MODEL e in
      if truthyStr defaultModel then Inr defaultModel
      else (case getAvailableModels e of
              Inl err \<Rightarrow> Inl err
            | Inr availableModels \<Rightarrow>
                Inr (case availableModels of [] \<Rightarrow> None | m # _ \<Rightarrow> Some m)))"

text \<open>
  The module evaluates \<^verbatim>\<open>assistantInputSchema\<close> when it is loaded: the default of
  the field \<^verbatim>\<open>model\<close> calls \<^verbatim>\<open>getDefaultModel()\<close> and its description calls
  \<^verbatim>\<open>getAvailableModels()\<close>.  An error thrown there aborts the import, and then
  \<^verbatim>\<open>kagiAssistant\<close> does not exist.
\<close>

record inputSchema =
  model_default :: "string option"
  model_description :: string

definition assistantInputSchema :: "env \<Rightarrow> exn + inputSchema" where
  "assistantInputSchema e =
     (case getDefaultModel e of
        Inl err \<Rightarrow> Inl err
      | Inr d \<Rightarrow>
          (case getAvailableModels e of
             Inl err \<Rightarrow> Inl err
           | Inr ms \<Rightarrow>
               Inr \<lparr>model_default = d,
                    model_description =
                      ''AI model to use for the conversation. Available models: '' @ join '', '' ms\<rparr>))"

section \<open>The conversation session and the request\<close>

text \<open>
  The module variable \<^verbatim>\<open>threadId\<close>: \<^verbatim>\<open>null\<close> (\<open>None\<close>) or the value of the
  property \<^verbatim>\<open>id\<close> of a thread document.
\<close>

type_synonym session = "json option"

text \<open>
  The payload.  \<^verbatim>\<open>thread_id\<close> is always a property of \<^verbatim>\<open>focus\<close> and carries
  \<^verbatim>\<open>null\<close> (\<open>None\<close>) when the session holds no identifier; \<^verbatim>\<open>message_id\<close> is
  a property only when it has been assigned (\<open>None\<close> when it is absent).
\<close>

record focus =
  thread_id :: "json option"
  branch_id :: string
  focus_prompt :: string
  message_id :: "string option"

record profile =
  profile_id :: json
  personalizations :: bool
  profile_internet_access :: bool
  profile_model :: string
  lens_id :: json

record thread =
  tag_ids :: "string list"
  saved :: bool
  shared :: bool

record requestData =
  focus :: focus
  profile :: profile
  threads :: "thread list"

text \<open>\<^verbatim>\<open>if (threadId)\<close>: the session holds a value and the value is truthy.\<close>

fun holdsThread :: "session \<Rightarrow> bool" where
  "holdsThread None = False"
| "holdsThread (Some v) = truthy v"

text \<open>
  \<^verbatim>\<open>buildRequestData\<close> reads the module variable \<^verbatim>\<open>threadId\<close> and may call
  \<^verbatim>\<open>uuidv4()\<close>; both are arguments here, \<open>uuid\<close> being the identifier that
  the generator returns for this call.
\<close>

definition buildRequestData :: "session \<Rightarrow> string \<Rightarrow> string \<Rightarrow> string \<Rightarrow> bool \<Rightarrow> requestData" where
  "buildRequestData threadId uuid prompt model internetAccess =
     \<lparr>focus =
        \<lparr>thread_id = threadId,
         branch_id = ''00000000-0000-4000-0000-000000000000'',
         focus_prompt = prompt,
         message_id = (if holdsThread threadId then Some uuid else None)\<rparr>,
      profile =
        \<lparr>profile_id = JNull,
         personalizations = True,
         profile_internet_access = internetAccess,
         profile_model = model,
         lens_id = JNull\<rparr>,
      threads = [\<lparr>tag_ids = [], saved = False, shared = False\<rparr>]\<rparr>"

definition headers :: "string \<Rightarrow> string \<Rightarrow> (string \<times> string) list" where
  \<open>headers token kagiSearchCookie =
     [(''accept'', ''application/vnd.kagi.stream''),
      (''accept-language'', ''zh-CN,zh;q=0.9,en-US;q=0.8,en;q=0.7''),
      (''content-type'', ''application/json''),
      (''origin'', ''https://kagi.com''),
      (''priority'', ''u=1, i''),
      (''referer'', ''https://kagi.com/assistant''),
      (''rtt'', ''300''),
      (''sec-ch-ua'', ''"Chromium";v="140", "Not=A?Brand";v="24", "Google Chrome";v="140"''),
      (''sec-ch-ua-mobile'', ''?0''),
      (''sec-ch-ua-platform'', ''"Windows"''),
      (''sec-fetch-dest'', ''empty''),
      (''sec-fetch-mode'', ''cors''),
      (''sec-fetch-site'', ''same-origin''),
      (''user-agent'', ''Mozilla/5.0 (Windows NT 10.0; Win64; x64) AppleWebKit/537.36 (KHTML, like Gecko) Chrome/140.0.0.0 Safari/537.36''),
      (''cookie'', ''kagi_session='' @ token @ ''; _kagi_search_='' @ kagiSearchCookie)]\<close>

text \<open>
  The request handed to \<^verbatim>\<open>fetch\<close>; the body is the payload itself, which the
  source serialises with \<^verbatim>\<open>JSON.stringify\<close>.
\<close>

record request =
  url :: string
  http_method :: string
  request_headers :: "(string \<times> string) list"
  body :: requestData

text \<open>
  The response of \<^verbatim>\<open>fetch\<close>; \<^verbatim>\<open>response.text()\<close> gives the body or rejects
  (the field \<open>response_text\<close>).
\<close>

record response =
  ok :: bool
  status :: nat
  statusText :: string
  response_text :: "exn + string"

datatype fetched = FetchFailed exn | Fetched response

text \<open>
  What the function takes from outside the program: the identifier that
  \<^verbatim>\<open>uuidv4()\<close> returns, the answer of \<^verbatim>\<open>fetch\<close> to a request, and
  \<^verbatim>\<open>JSON.parse\<close>, whose \<^verbatim>\<open>SyntaxError\<close> is \<open>None\<close>.
\<close>

record world =
  uuidv4 :: string
  fetch :: "request \<Rightarrow> fetched"
  jsonParse :: "string \<Rightarrow> json option"

text \<open>The arguments of the tool; \<open>None\<close> is a property left \<^verbatim>\<open>undefined\<close>.\<close>

record args =
  prompt_arg :: "string option"
  new_conversation_arg :: "bool option"
  model_arg :: "string option"
  internet_access_arg :: "bool option"
  format_arg :: "string option"

section \<open>The exchange\<close>

text \<open>Decimal digits of a number, as a template literal prints it.\<close>

fun showNat :: "nat \<Rightarrow> string" where
  "showNat n = (if n < 10 then [char_of (48 + n)] else showNat (n div 10) @ [char_of (48 + n mod 10)])"

text \<open>
  A method call \<^verbatim>\<open>html.replace(...)\<close> on a truthy value: only a string has the
  method.
\<close>

definition onString :: "(string \<Rightarrow> string) \<Rightarrow> json \<Rightarrow> exn + json" where
  "onString f html =
     (case html of
        JStr s \<Rightarrow> Inr (JStr (f s))
      | _ \<Rightarrow> Inl (TypeError ''html.replace is not a function''))"

definition formatResponse :: "json \<Rightarrow> string \<Rightarrow> exn + json" where
  "formatResponse html format =
     (if format = ''html'' then Inr html
      else if format = ''markdown'' then onString htmlToMarkdown html
      else if format = ''plain'' then onString htmlToPlain html
      else onString htmlToMarkdown html)"

text \<open>
  Lines 227 to 279 of \<^verbatim>\<open>kagiAssistant\<close>: the checks, the reset of the session
  and the request.  The parameters are the arguments after their defaults.
  The session is returned as the checks and the reset leave it.
\<close>

definition invalidModel :: "string \<Rightarrow> string list \<Rightarrow> string" where
  \<open>invalidModel m availableModels =
     ''Invalid model "'' @ m @ ''". Available models: '' @ join '', '' availableModels\<close>

definition prepareRequest ::
  "env \<Rightarrow> world \<Rightarrow> session \<Rightarrow> string option \<Rightarrow> bool \<Rightarrow> string option \<Rightarrow> bool \<Rightarrow> (exn + request) \<times> session"
where
  "prepareRequest e w threadId prompt new_conversation model internet_access =
     (case prompt of
        None \<Rightarrow> (Inl (Error ''Assistant called with no prompt.''), threadId)
      | Some p \<Rightarrow>
     if p = [] then (Inl (Error ''Assistant called with no prompt.''), threadId) else
     (case getEnvironmentConfig e of
        Inl err \<Rightarrow> (Inl err, threadId)
      | Inr cfg \<Rightarrow>
     (case getAvailableModels e of
        Inl err \<Rightarrow> (Inl err, threadId)
      | Inr availableModels \<Rightarrow>
     if cfg_token cfg = [] then
       (Inl (Error ''KAGI_SESSION_TOKEN environment variable not set. Please set it before running.''),
        threadId) else
     (case KAGI_SEARCH_COOKIE e of
        None \<Rightarrow>
          (Inl (Error ''KAGI_SEARCH_COOKIE environment variable not set. Please set it to your _kagi_search_ cookie value.''),
           threadId)
      | Some kagiSearchCookie \<Rightarrow>
     if kagiSearchCookie = [] then
       (Inl (Error ''KAGI_SEARCH_COOKIE environment variable not set. Please set it to your _kagi_search_ cookie value.''),
        threadId) else
     (case model of
        None \<Rightarrow> (Inl (Error (invalidModel ''undefined'' availableModels)), threadId)
      | Some m \<Rightarrow>
     if m \<notin> set availableModels then
       (Inl (Error (invalidModel m availableModels)), threadId) else
     (let threadId' = (if new_conversation then None else threadId);
          requestData = buildRequestData threadId' (uuidv4 w) p m internet_access
      in (Inr \<lparr>url = ''https://kagi.com/assistant/prompt'',
               http_method = ''POST'',
               request_headers = headers (cfg_token cfg) kagiSearchCookie,
               body = requestData\<rparr>,
          threadId')))))))"

text \<open>
  Lines 301 to 312: the thread document refreshes the session.  Whatever is
  thrown inside the inner \<^verbatim>\<open>try\<close> is caught there and only logged.
\<close>

definition refreshThread :: "world \<Rightarrow> session \<Rightarrow> string \<Rightarrow> session" where
  "refreshThread w threadId responseText =
     (case extractJson responseText ''thread.json:'' of
        None \<Rightarrow> threadId
      | Some threadJson \<Rightarrow>
          (if threadJson = [] then threadId
           else (case jsonParse w threadJson of
                   None \<Rightarrow> threadId
                 | Some threadData \<Rightarrow>
                     (case getProp threadData ''id'' of
                        Inl err \<Rightarrow> threadId
                      | Inr None \<Rightarrow> threadId
                      | Inr (Some v) \<Rightarrow> (if truthy v then Some v else threadId)))))"

text \<open>Lines 314 to 339: the message document and the formatted reply.\<close>

definition readMessage :: "world \<Rightarrow> string \<Rightarrow> string \<Rightarrow> exn + json" where
  "readMessage w format responseText =
     (case extractJson responseText ''new_message.json:'' of
        None \<Rightarrow> Inl (Error ''Failed to parse assistant response'')
      | Some messageJson \<Rightarrow>
     if messageJson = [] then Inl (Error ''Failed to parse assistant response'') else
     (case jsonParse w messageJson of
        None \<Rightarrow> Inl (Error ''Failed to parse message JSON response'')
      | Some messageData \<Rightarrow>
     (case getProp messageData ''state'' of
        Inl err \<Rightarrow> Inl err
      | Inr state \<Rightarrow>
     if state = Some (JStr ''done'') then
       (case getProp messageData ''reply'' of
          Inl err \<Rightarrow> Inl err
        | Inr None \<Rightarrow> Inl (Error ''Assistant response not in expected format'')
        | Inr (Some reply) \<Rightarrow>
            (if truthy reply then formatResponse reply format
             else Inl (Error ''Assistant response not in expected format'')))
     else Inl (Error ''Assistant response not in expected format''))))"

text \<open>
  The body of the \<^verbatim>\<open>try\<close> block: the result or the error thrown, and the
  session as it is left.
\<close>

definition tryBlock ::
  "env \<Rightarrow> world \<Rightarrow> session \<Rightarrow> string option \<Rightarrow> bool \<Rightarrow> string option \<Rightarrow> bool \<Rightarrow> string \<Rightarrow> (exn + json) \<times> session"
where
  "tryBlock e w threadId prompt new_conversation model internet_access format =
     (case prepareRequest e w threadId prompt new_conversation model internet_access of
        (Inl err, threadId') \<Rightarrow> (Inl err, threadId')
      | (Inr req, threadId') \<Rightarrow>
     (case fetch w req of
        FetchFailed err \<Rightarrow> (Inl err, threadId')
      | Fetched response \<Rightarrow>
     if \<not> ok response then
       (if status response = 401 \<or> status response = 403 then
          (Inl (Error ''Invalid or expired session token''), threadId')
        else
          (Inl (Error (''HTTP '' @ showNat (status response) @ '': '' @ statusText response)),
           threadId'))
     else
     (case response_text response of
        Inl err \<Rightarrow> (Inl err, threadId')
      | Inr responseText \<Rightarrow>
          (readMessage w format responseText, refreshThread w threadId' responseText))))"

text \<open>
  The promise that \<^verbatim>\<open>kagiAssistant\<close> returns: resolved with a tool result, of
  which the model keeps the property \<^verbatim>\<open>text\<close> of the one content entry, or
  rejected with an error.
\<close>

datatype outcome = Returned json | Rejected exn

text \<open>
  The defaults of the parameters \<^verbatim>\<open>new_conversation\<close>, \<^verbatim>\<open>model\<close>,
  \<^verbatim>\<open>internet_access\<close> and \<^verbatim>\<open>format\<close> are evaluated before the body, outside
  the \<^verbatim>\<open>try\<close> block; only that of \<^verbatim>\<open>model\<close> can throw.
\<close>

definition defaults :: "env \<Rightarrow> args \<Rightarrow> exn + bool \<times> string option \<times> bool \<times> string" where
  "defaults e a =
     (let new_conversation = (case new_conversation_arg a of None \<Rightarrow> True | Some b \<Rightarrow> b) in
      case (case model_arg a of None \<Rightarrow> getDefaultModel e | Some m \<Rightarrow> Inr (Some m)) of
        Inl err \<Rightarrow> Inl err
      | Inr model \<Rightarrow>
          (let internet_access = (case internet_access_arg a of None \<Rightarrow> True | Some b \<Rightarrow> b);
               format = (case format_arg a of None \<Rightarrow> ''markdown'' | Some f \<Rightarrow> f)
           in Inr (new_conversation, model, internet_access, format)))"

text \<open>
  \<^verbatim>\<open>kagiAssistant\<close>: an error thrown by a default rejects the promise; an error
  thrown in the \<^verbatim>\<open>try\<close> block is caught and its text is returned.
\<close>

definition kagiAssistant :: "env \<Rightarrow> world \<Rightarrow> session \<Rightarrow> args \<Rightarrow> outcome \<times> session" where
  "kagiAssistant e w threadId a =
     (case defaults e a of
        Inl err \<Rightarrow> (Rejected err, threadId)
      | Inr (new_conversation, model, internet_access, format) \<Rightarrow>
          (case tryBlock e w threadId (prompt_arg a) new_conversation model internet_access format of
             (Inr result, threadId') \<Rightarrow> (Returned result, threadId')
           | (Inl error, threadId') \<Rightarrow> (Returned (JStr (formatError error)), threadId')))"

section \<open>Reachable sessions and an example configuration\<close>

text \<open>
  The session starts as \<^verbatim>\<open>null\<close> and is assigned only inside \<^verbatim>\<open>kagiAssistant\<close>:
  the sessions that the program can be in are those that a sequence of calls
  produces, whatever the environment, the outside world and the arguments of
  each call.
\<close>

inductive reachable :: "session \<Rightarrow> bool" where
  initial: "reachable None"
| call: "reachable threadId \<Longrightarrow> kagiAssistant e w threadId a = (result, threadId') \<Longrightarrow> reachable threadId'"

text \<open>
  A configuration with the allow-list \<open>a, b\<close>, and a provider that answers with
  a thread document and a finished message.
\<close>

definition exampleEnv :: env where
  "exampleEnv =
     \<lparr>KAGI_DEFAULT_MODEL = None, KAGI_MODEL_LIST = Some ''a,b'', KAGI_SEARCH_COOKIE = Some ''c'',
      KAGI_SESSION_TOKEN = Some ''t'', KAGI_SUMMARIZER_ENGINE = None, tokenFile = ENOENT\<rparr>"

definition exampleParse :: "string \<Rightarrow> json option" where
  \<open>exampleParse s =
     (if s = ''{"id":"abc"}'' then Some (JObj [(''id'', JStr ''abc'')])
      else if s = ''{"state":"done","reply":"<p>Hi</p>"}'' then
        Some (JObj [(''state'', JStr ''done''), (''reply'', JStr ''<p>Hi</p>'')])
      else if s = ''{"state":"done","reply":""}'' then
        Some (JObj [(''state'', JStr ''done''), (''reply'', JStr [])])
      else None)\<close>

definition exampleWorld :: world where
  \<open>exampleWorld =
     \<lparr>uuidv4 = ''11111111-2222-4333-8444-555555555555'',
      fetch = (\<lambda>req. Fetched \<lparr>ok = True, status = 200, statusText = ''OK'',
         response_text = Inr ''noise thread.json: {"id":"abc"} more noise new_message.json: {"state":"done","reply":"<p>Hi</p>"}''\<rparr>),
      jsonParse = exampleParse\<rparr>\<close>

definition exampleArgs :: args where
  "exampleArgs =
     \<lparr>prompt_arg = Some ''hi'', new_conversation_arg = None, model_arg = None,
      internet_access_arg = None, format_arg = None\<rparr>"

section \<open>The last occurrence of the marker\<close>

lemma lastIndexOfFrom_no_occurrence:
  "(\<forall>k\<le>length xs. \<not> prefix m (drop k xs)) \<Longrightarrow> lastIndexOfFrom m i found xs = found"
proof (induction xs arbitrary: i found)
  case Nil
  then show ?case by auto
next
  case (Cons x xs)
  from Cons.prems have here: "\<not> prefix m (x # xs)"
    by (metis drop0 le0)
  have "\<forall>k\<le>length xs. \<not> prefix m (drop k xs)"
  proof (intro allI impI)
    fix k assume "k \<le> length xs"
    then have "Suc k \<le> length (x # xs)" by simp
    with Cons.prems have "\<not> prefix m (drop (Suc k) (x # xs))" by blast
    then show "\<not> prefix m (drop k xs)" by simp
  qed
  with Cons.IH here show ?case by simp
qed

lemma lastIndexOfFrom_append:
  "\<exists>f. lastIndexOfFrom m i found (pre @ ys) = lastIndexOfFrom m (i + length pre) f ys"
proof (induction pre arbitrary: i found)
  case Nil
  show ?case by auto
next
  case (Cons x pre)
  obtain f where
    "lastIndexOfFrom m (Suc i) (if prefix m (x # pre @ ys) then Some i else found) (pre @ ys) =
     lastIndexOfFrom m (Suc i + length pre) f ys"
    using Cons.IH by blast
  then show ?case by auto
qed

lemma lastIndexOfFrom_at_marker:
  assumes "\<forall>q. 0 < q \<and> q \<le> length (m @ post) \<longrightarrow> \<not> prefix m (drop q (m @ post))"
  shows "lastIndexOfFrom m j f (m @ post) = Some j"
proof (cases "m @ post")
  case Nil
  then show ?thesis by simp
next
  case (Cons x xs)
  have occ: "prefix m (x # xs)"
    using Cons by (metis prefixI)
  have "\<forall>k\<le>length xs. \<not> prefix m (drop k xs)"
  proof (intro allI impI)
    fix k assume "k \<le> length xs"
    then have "0 < Suc k \<and> Suc k \<le> length (m @ post)" using Cons by simp
    with assms have "\<not> prefix m (drop (Suc k) (m @ post))" by blast
    then show "\<not> prefix m (drop k xs)" using Cons by simp
  qed
  then have "lastIndexOfFrom m (Suc j) (Some j) xs = Some j"
    by (rule lastIndexOfFrom_no_occurrence)
  with occ Cons show ?thesis by simp
qed

lemma lastIndexOf_last_occurrence:
  assumes "\<forall>q. length pre < q \<and> q \<le> length (pre @ marker @ post) \<longrightarrow>
             \<not> prefix marker (drop q (pre @ marker @ post))"
  shows "lastIndexOf (pre @ marker @ post) marker = Some (length pre)"
proof -
  have later: "\<forall>q. 0 < q \<and> q \<le> length (marker @ post) \<longrightarrow> \<not> prefix marker (drop q (marker @ post))"
  proof (intro allI impI)
    fix q assume q: "0 < q \<and> q \<le> length (marker @ post)"
    then have "length pre < length pre + q \<and> length pre + q \<le> length (pre @ marker @ post)"
      by simp
    with assms have "\<not> prefix marker (drop (length pre + q) (pre @ marker @ post))" by blast
    then show "\<not> prefix marker (drop q (marker @ post))" by (simp add: add.commute)
  qed
  obtain f where "lastIndexOfFrom marker 0 None (pre @ marker @ post) =
      lastIndexOfFrom marker (0 + length pre) f (marker @ post)"
    using lastIndexOfFrom_append by blast
  with lastIndexOfFrom_at_marker [OF later] show ?thesis
    by (simp add: lastIndexOf_def)
qed

lemma lastIndexOfFrom_Some:
  "\<exists>p. lastIndexOfFrom m i (Some j) xs = Some p \<and> (p = j \<or> i \<le> p)"
proof (induction xs arbitrary: i j)
  case Nil
  show ?case by simp
next
  case (Cons x xs)
  show ?case
  proof (cases "prefix m (x # xs)")
    case True
    from Cons.IH [of "Suc i" i] obtain p where
      "lastIndexOfFrom m (Suc i) (Some i) xs = Some p" "p = i \<or> Suc i \<le> p" by blast
    with True show ?thesis by auto
  next
    case False
    from Cons.IH [of "Suc i" j] obtain p where
      "lastIndexOfFrom m (Suc i) (Some j) xs = Some p" "p = j \<or> Suc i \<le> p" by blast
    with False show ?thesis by auto
  qed
qed

lemma lastIndexOfFrom_greatest:
  "q \<le> length xs \<Longrightarrow> prefix m (drop q xs) \<Longrightarrow>
   \<exists>p. lastIndexOfFrom m i found xs = Some p \<and> i + q \<le> p"
proof (induction xs arbitrary: i found q)
  case Nil
  then show ?case by simp
next
  case (Cons x xs)
  show ?case
  proof (cases q)
    case 0
    with Cons.prems have occ: "prefix m (x # xs)" by simp
    from lastIndexOfFrom_Some [of m "Suc i" i xs] obtain p where
      "lastIndexOfFrom m (Suc i) (Some i) xs = Some p" "p = i \<or> Suc i \<le> p" by blast
    with occ 0 show ?thesis by auto
  next
    case (Suc q')
    with Cons.prems have "q' \<le> length xs" "prefix m (drop q' xs)" by simp_all
    from Cons.IH [OF this, of "Suc i"] Suc show ?thesis by auto
  qed
qed

lemma lastIndexOf_greatest:
  assumes "lastIndexOf raw marker = Some p"
  shows "\<forall>q. p < q \<and> q \<le> length raw \<longrightarrow> \<not> prefix marker (drop q raw)"
proof (intro allI impI notI)
  fix q assume q: "p < q \<and> q \<le> length raw" and occ: "prefix marker (drop q raw)"
  from lastIndexOfFrom_greatest [of q raw marker 0 None] q occ obtain p' where
    "lastIndexOfFrom marker 0 None raw = Some p'" "q \<le> p'" by auto
  with assms q show False by (simp add: lastIndexOf_def)
qed

text \<open>
  Claim C7.  When the marker occurs several times in the raw text, only what
  follows its last occurrence is considered.  Let the text be \<open>pre\<close>, the
  marker and \<open>post\<close>, with no occurrence of the marker starting further right
  than the one shown.  Then \<^verbatim>\<open>lastIndexOf\<close> finds exactly this occurrence, and
  the extracted document is the one extracted from the marker and \<open>post\<close>
  alone: nothing in \<open>pre\<close>, earlier occurrences and the documents behind them
  included, contributes.
\<close>

theorem extractJson_last_marker:
  assumes "\<forall>q. length pre < q \<and> q \<le> length (pre @ marker @ post) \<longrightarrow>
             \<not> prefix marker (drop q (pre @ marker @ post))"
  shows "lastIndexOf (pre @ marker @ post) marker = Some (length pre) \<and>
         extractJson (pre @ marker @ post) marker = extractJson (marker @ post) marker"
proof -
  have later: "\<forall>q. length ([]::string) < q \<and> q \<le> length ([] @ marker @ post) \<longrightarrow>
                 \<not> prefix marker (drop q ([] @ marker @ post))"
  proof (intro allI impI)
    fix q assume q: "length ([]::string) < q \<and> q \<le> length ([] @ marker @ post)"
    then have "length pre < length pre + q \<and> length pre + q \<le> length (pre @ marker @ post)"
      by simp
    with assms have "\<not> prefix marker (drop (length pre + q) (pre @ marker @ post))" by blast
    then show "\<not> prefix marker (drop q ([] @ marker @ post))" by (simp add: add.commute)
  qed
  have a: "lastIndexOf (pre @ marker @ post) marker = Some (length pre)"
    using assms by (rule lastIndexOf_last_occurrence)
  have b: "lastIndexOf (marker @ post) marker = Some 0"
    using lastIndexOf_last_occurrence [OF later] by simp
  show ?thesis
    using a b by (simp add: extractJson_def substring_def)
qed

theorem extractJson_last_marker_witness:
  \<open>lastIndexOf (''thread.json: {"id":"old"} '' @ ''thread.json:'' @ '' {"id":"new"} end'') ''thread.json:'' = Some 26 \<and>
   extractJson (''thread.json: {"id":"old"} '' @ ''thread.json:'' @ '' {"id":"new"} end'') ''thread.json:'' = Some ''{"id":"new"}''\<close>
proof -
  have "lastIndexOf (''thread.json: {\"id\":\"old\"} '' @ ''thread.json:'' @ '' {\"id\":\"new\"} end'') ''thread.json:'' = Some 26"
    by (simp add: lastIndexOf_def)
  note h = lastIndexOf_greatest [OF this]
  have "length ''thread.json: {\"id\":\"old\"} '' = 26" by simp
  with h extractJson_last_marker [of "''thread.json: {\"id\":\"old\"} ''" "''thread.json:''" "'' {\"id\":\"new\"} end''"]
  show ?thesis
    by (simp add: extractJson_def lastIndexOf_def trim_def substring_def indexOf_def isWhiteSpace_def)
qed

section \<open>Braces inside string literals\<close>

text \<open>
  The flag \<^verbatim>\<open>inString\<close> starts as false, and the only assignment to it is in a
  branch that runs when it is true.  So the scan never enters a string: it
  tells the two braces from all other characters and nothing else.  Renaming
  the characters in a way that keeps the braces apart, for instance turning
  every double quote and backslash into a letter, renames the result.
\<close>

lemma scanJson_only_braces:
  assumes "\<And>c. (f c = CHR ''{'') = (c = CHR ''{'')" and "\<And>c. (f c = CHR ''}'') = (c = CHR ''}'')"
  shows "scanJson count False escape (map f acc) (map f cs) =
         map_option (map f) (scanJson count False escape acc cs)"
proof (induction cs arbitrary: count escape acc)
  case Nil
  show ?case by simp
next
  case (Cons a cs)
  have step: "scanJson k False False (map f acc @ [f c]) (map f cs) =
      map_option (map f) (scanJson k False False (acc @ [c]) cs)" for k c
    using Cons.IH [of k False "acc @ [c]"] by simp
  show ?case by (simp add: assms step)
qed

lemma extractJson_open_brace_in_string:
  \<open>extractJson ''new_message.json: {"state":"done","reply":"a{b"}'' ''new_message.json:'' = None\<close>
  by (simp add: extractJson_def lastIndexOf_def trim_def substring_def indexOf_def isWhiteSpace_def)

text \<open>
  Claim C1.  A brace inside a string literal of the document must not change
  the brace depth, so that the complete object is returned.  The code counts
  it: for the message document with the reply \<open>a}b\<close> the closing brace inside
  the string literal brings the depth to zero, and the text returned stops
  there, in the middle of the string literal.
\<close>

theorem extractJson_brace_in_string:
  \<open>extractJson ''new_message.json: {"state":"done","reply":"a}b"}'' ''new_message.json:'' =
     Some ''{"state":"done","reply":"a}''\<close>
  by (simp add: extractJson_def lastIndexOf_def trim_def substring_def indexOf_def isWhiteSpace_def)

section \<open>The reply formatter\<close>

lemma htmlToMarkdown_list_items:
  "formatResponse (JStr ''<ul><li>a</li><li>b</li></ul>'') ''markdown'' =
     Inr (JStr (''- a'' @ [CHR 0x0A] @ ''- b''))"
  by (simp add: formatResponse_def onString_def htmlToMarkdown_def header_def codeBlock_def divOpen_def
      literal_def lineBreak_def
      enclosed_def lit_def anyTag_def newlines_def trim_def isWhiteSpace_def
      isLineTerminator_def isLevel_def Let_def)

text \<open>
  Claim C2.  For the markup of a list with the items \<open>a\<close> and \<open>b\<close> and the
  format \<^verbatim>\<open>plain\<close> the claim expects each item on a line of its own.  The code
  puts a newline behind each item, but its last replacement turns every run
  of white space, newlines included, into one space: the result is the single
  line \<open>- a - b\<close>.
\<close>

theorem htmlToPlain_list_items:
  "formatResponse (JStr ''<ul><li>a</li><li>b</li></ul>'') ''plain'' = Inr (JStr ''- a - b'')"
  by (simp add: formatResponse_def onString_def htmlToPlain_def blockTag_def lineBreak_def
      enclosed_def lit_def anyTag_def newlines_def spaces_def trim_def isWhiteSpace_def
      isLineTerminator_def isLevel_def Let_def)

text \<open>
  Claim C9.  With the format \<^verbatim>\<open>html\<close>, the verbatim representation, the markup
  is passed through unchanged.
\<close>

theorem formatResponse_html:
  "formatResponse (JStr x) ''html'' = Inr (JStr x)"
  by (simp add: formatResponse_def)

section \<open>The session and the payload\<close>

lemma scanJson_nonempty: "scanJson count inString escape acc cs = Some r \<Longrightarrow> r \<noteq> []"
  by (induction cs arbitrary: count inString escape acc) (auto split: if_splits)

lemma extractJson_nonempty: "extractJson raw marker = Some r \<Longrightarrow> r \<noteq> []"
  by (auto simp: extractJson_def Let_def split: option.splits dest: scanJson_nonempty)

lemma prepareRequest_session:
  "prepareRequest e w threadId p nc m ia = (r, t) \<Longrightarrow> t = threadId \<or> t = None"
  by (auto simp: prepareRequest_def Let_def split: option.splits sum.splits if_splits)

lemma refreshThread_session:
  "refreshThread w threadId raw = t \<Longrightarrow> t = threadId \<or> holdsThread t"
  by (auto simp: refreshThread_def split: option.splits sum.splits if_splits)

lemma tryBlock_session:
  assumes "tryBlock e w threadId p nc m ia f = (r, t)"
  shows "t = threadId \<or> t = None \<or> holdsThread t"
proof -
  obtain r0 t0 where pr: "prepareRequest e w threadId p nc m ia = (r0, t0)"
    by (cases "prepareRequest e w threadId p nc m ia")
  then have t0: "t0 = threadId \<or> t0 = None" by (rule prepareRequest_session)
  from assms pr have "t = t0 \<or> (\<exists>raw. t = refreshThread w t0 raw)"
    by (auto simp: tryBlock_def split: sum.splits fetched.splits if_splits)
  with t0 refreshThread_session show ?thesis by metis
qed

lemma kagiAssistant_session:
  assumes "kagiAssistant e w threadId a = (r, t)"
  shows "t = threadId \<or> t = None \<or> holdsThread t"
  using assms tryBlock_session
  by (fastforce simp: kagiAssistant_def split: sum.splits prod.splits)

lemma reachable_session: "reachable threadId \<Longrightarrow> threadId = None \<or> holdsThread threadId"
proof (induction rule: reachable.induct)
  case initial
  show ?case by simp
next
  case (call threadId e w a result threadId')
  from kagiAssistant_session [OF call.hyps(2)] call.IH show ?case by auto
qed

lemma prepareRequest_Inr:
  assumes "prepareRequest e w threadId prompt nc model ia = (Inr req, t)"
  shows "\<exists>p m. prompt = Some p \<and> model = Some m \<and> t = (if nc then None else threadId) \<and>
           body req = buildRequestData t (uuidv4 w) p m ia"
  using assms
  by (simp add: prepareRequest_def Let_def split: option.splits sum.splits if_splits) auto

lemma buildRequestData_focus:
  "thread_id (focus (buildRequestData threadId uuid p m ia)) = threadId"
  "message_id (focus (buildRequestData threadId uuid p m ia)) =
     (if holdsThread threadId then Some uuid else None)"
  by (simp_all add: buildRequestData_def)

text \<open>
  Claim C4.  In every session that the program can reach, the payload has the
  property \<^verbatim>\<open>message_id\<close> if and only if the session holds a thread
  identifier.  In particular, when the session holds \<open>T\<close> and the call does not
  ask for a new conversation, the request that is built carries \<open>T\<close> as
  \<^verbatim>\<open>thread_id\<close> and the identifier just generated by \<^verbatim>\<open>uuidv4()\<close> as
  \<^verbatim>\<open>message_id\<close>.
\<close>

theorem buildRequestData_message_id:
  assumes "reachable threadId"
  shows "((message_id (focus (buildRequestData threadId uuid p m ia)) \<noteq> None) = (threadId \<noteq> None)) \<and>
         (\<forall>T req t. threadId = Some T \<and>
            prepareRequest e w threadId prompt False model ia = (Inr req, t) \<longrightarrow>
            thread_id (focus (body req)) = Some T \<and>
            message_id (focus (body req)) = Some (uuidv4 w))"
proof -
  have inv: "threadId = None \<or> holdsThread threadId"
    using assms by (rule reachable_session)
  then have first: "(message_id (focus (buildRequestData threadId uuid p m ia)) \<noteq> None) = (threadId \<noteq> None)"
    by (cases threadId) (auto simp: buildRequestData_focus)
  have second: "thread_id (focus (body req)) = Some T \<and> message_id (focus (body req)) = Some (uuidv4 w)"
    if "threadId = Some T \<and> prepareRequest e w threadId prompt False model ia = (Inr req, t)"
    for T req t
  proof -
    from that prepareRequest_Inr [of e w threadId prompt False model ia req t]
    obtain p' m' where "body req = buildRequestData threadId (uuidv4 w) p' m' ia"
      by auto
    with that inv show ?thesis by (auto simp: buildRequestData_focus)
  qed
  from first second show ?thesis by blast
qed

lemma exampleCall:
  "kagiAssistant exampleEnv exampleWorld None exampleArgs = (Returned (JStr ''Hi''), Some (JStr ''abc''))"
  by (simp add: kagiAssistant_def defaults_def exampleEnv_def exampleWorld_def exampleArgs_def exampleParse_def
      getDefaultModel_def getAvailableModels_def trim_def isWhiteSpace_def tryBlock_def
      prepareRequest_def getEnvironmentConfig_def resolveToken_def isValidTokenFormat_def
      readMessage_def refreshThread_def extractJson_def lastIndexOf_def substring_def indexOf_def
      formatResponse_def onString_def htmlToMarkdown_def Let_def
      enclosed_def literal_def lit_def header_def codeBlock_def lineBreak_def anyTag_def newlines_def
      divOpen_def)


lemma exampleCall_reachable: "reachable (Some (JStr ''abc''))"
  by (rule reachable.call [OF reachable.initial exampleCall])

theorem buildRequestData_message_id_witness:
  "reachable (Some (JStr ''abc'')) \<and>
   message_id (focus (buildRequestData (Some (JStr ''abc'')) ''u'' ''p'' ''a'' True)) \<noteq> None \<and>
   (\<exists>req. prepareRequest exampleEnv exampleWorld (Some (JStr ''abc'')) (Some ''again'') False (Some ''a'') True =
            (Inr req, Some (JStr ''abc'')) \<and>
          thread_id (focus (body req)) = Some (JStr ''abc'') \<and>
          message_id (focus (body req)) = Some ''11111111-2222-4333-8444-555555555555'')"
proof -
  have r: "reachable (Some (JStr ''abc''))"
    by (rule exampleCall_reachable)
  obtain req where req: "prepareRequest exampleEnv exampleWorld (Some (JStr ''abc'')) (Some ''again'') False (Some ''a'') True =
      (Inr req, Some (JStr ''abc''))"
    by (simp add: prepareRequest_def exampleEnv_def getEnvironmentConfig_def resolveToken_def
        isValidTokenFormat_def trim_def isWhiteSpace_def getAvailableModels_def Let_def)
  from buildRequestData_message_id [OF r, of "''u''" "''p''" "''a''" True exampleEnv exampleWorld "Some ''again''" "Some ''a''"]
  have "message_id (focus (buildRequestData (Some (JStr ''abc'')) ''u'' ''p'' ''a'' True)) \<noteq> None"
    and "thread_id (focus (body req)) = Some (JStr ''abc'') \<and> message_id (focus (body req)) = Some (uuidv4 exampleWorld)"
    using req by blast+
  with r req show ?thesis by (auto simp: exampleWorld_def)
qed

text \<open>
  Claim C5.  When a new conversation is asked for, the request that is built
  carries no thread identifier (\<^verbatim>\<open>thread_id\<close> is \<^verbatim>\<open>null\<close>) and no message
  identifier, whatever the session held before, and the session is cleared.
\<close>

theorem new_conversation_resets:
  assumes "prepareRequest e w threadId prompt True model ia = (Inr req, t)"
  shows "thread_id (focus (body req)) = None \<and> message_id (focus (body req)) = None \<and> t = None"
proof -
  from prepareRequest_Inr [OF assms] obtain p m where
    "t = None" "body req = buildRequestData t (uuidv4 w) p m ia" by auto
  then show ?thesis by (simp add: buildRequestData_focus)
qed

theorem new_conversation_resets_witness:
  "\<exists>req. prepareRequest exampleEnv exampleWorld (Some (JStr ''abc'')) (Some ''hi'') True (Some ''a'') True = (Inr req, None) \<and>
     thread_id (focus (body req)) = None \<and> message_id (focus (body req)) = None"
proof -
  obtain req where req: "prepareRequest exampleEnv exampleWorld (Some (JStr ''abc'')) (Some ''hi'') True (Some ''a'') True =
      (Inr req, None)"
    by (simp add: prepareRequest_def exampleEnv_def getEnvironmentConfig_def resolveToken_def
        isValidTokenFormat_def trim_def isWhiteSpace_def getAvailableModels_def Let_def)
  from new_conversation_resets [OF req] req show ?thesis by blast
qed

section \<open>Errors of the exchange\<close>

lemma readMessage_Inr:
  "readMessage w f raw = Inr v \<Longrightarrow> \<exists>reply. truthy reply \<and> formatResponse reply f = Inr v"
  by (auto simp: readMessage_def split: option.splits sum.splits if_splits)

lemma tryBlock_Inr:
  assumes "tryBlock e w threadId p nc m ia f = (Inr v, t)"
  shows "\<exists>reply. truthy reply \<and> formatResponse reply f = Inr v"
proof -
  from assms obtain raw where "readMessage w f raw = Inr v"
    by (auto simp: tryBlock_def split: prod.splits sum.splits fetched.splits if_splits)
  then show ?thesis by (rule readMessage_Inr)
qed

text \<open>
  Once the defaults of the parameters have been evaluated, nothing leaves the
  function: an error thrown anywhere in the \<^verbatim>\<open>try\<close> block ends the exchange
  there and the result is its text, \<^verbatim>\<open>formatError\<close> of that one error;
  otherwise the result is the formatted reply.
\<close>

lemma kagiAssistant_catches:
  assumes "defaults e a = Inr (nc, m, ia, f)"
  shows "\<exists>result threadId'.
           kagiAssistant e w threadId a = (Returned result, threadId') \<and>
           (\<forall>err t. tryBlock e w threadId (prompt_arg a) nc m ia f = (Inl err, t) \<longrightarrow>
                    result = JStr (formatError err) \<and> threadId' = t) \<and>
           ((\<exists>err. result = JStr (formatError err)) \<or>
            (\<exists>reply. truthy reply \<and> formatResponse reply f = Inr result))"
proof -
  obtain r t where rt: "tryBlock e w threadId (prompt_arg a) nc m ia f = (r, t)"
    by (cases "tryBlock e w threadId (prompt_arg a) nc m ia f")
  show ?thesis
  proof (cases r)
    case (Inl error)
    with assms rt have "kagiAssistant e w threadId a = (Returned (JStr (formatError error)), t)"
      by (simp add: kagiAssistant_def)
    with rt Inl show ?thesis by auto
  next
    case (Inr result)
    with rt tryBlock_Inr obtain reply where "truthy reply \<and> formatResponse reply f = Inr result"
      by blast
    moreover from assms rt Inr have "kagiAssistant e w threadId a = (Returned result, t)"
      by (simp add: kagiAssistant_def)
    ultimately show ?thesis using rt Inr by auto
  qed
qed

text \<open>
  The default of the parameter \<^verbatim>\<open>model\<close> is evaluated outside the \<^verbatim>\<open>try\<close>
  block.  The promise is rejected exactly when no model is given and
  \<^verbatim>\<open>getDefaultModel()\<close> throws, and the error is then the one thrown there.
\<close>

lemma kagiAssistant_rejects_iff:
  "(kagiAssistant e w threadId a = (Rejected err, t)) =
   (model_arg a = None \<and> getDefaultModel e = Inl err \<and> t = threadId)"
proof (cases "defaults e a")
  case (Inl err')
  then have "model_arg a = None \<and> getDefaultModel e = Inl err'"
    by (auto simp: defaults_def Let_def split: option.splits sum.splits)
  with Inl show ?thesis by (auto simp: kagiAssistant_def)
next
  case (Inr ps)
  obtain nc m ia f where ps: "ps = (nc, m, ia, f)" by (cases ps) auto
  from Inr ps kagiAssistant_catches [of e a nc m ia f w threadId]
  have ret: "\<exists>result threadId'. kagiAssistant e w threadId a = (Returned result, threadId')"
    by blast
  from Inr have "\<not> (model_arg a = None \<and> getDefaultModel e = Inl err)"
    by (auto simp: defaults_def Let_def split: option.splits sum.splits)
  with ret show ?thesis by auto
qed

lemma kagiAssistant_default_model_throws:
  assumes "model_arg a = None" "\<not> truthyStr (KAGI_DEFAULT_MODEL e)" "\<not> truthyStr (KAGI_MODEL_LIST e)"
  shows "kagiAssistant e w threadId a = (Rejected (Error modelListNotSet), threadId)"
  using assms
  by (cases "KAGI_MODEL_LIST e")
     (auto simp: kagiAssistant_def defaults_def getDefaultModel_def getAvailableModels_def Let_def)

text \<open>
  The same configuration error, thrown by the call of \<^verbatim>\<open>getAvailableModels()\<close>
  inside the \<^verbatim>\<open>try\<close> block when the model is given, is caught and returned as
  text.
\<close>

lemma kagiAssistant_model_given_returns:
  "kagiAssistant (exampleEnv\<lparr>KAGI_MODEL_LIST := None\<rparr>) exampleWorld None
     (exampleArgs\<lparr>model_arg := Some ''a''\<rparr>) =
   (Returned (JStr (''Error: '' @ modelListNotSet)), None)"
  by (simp add: kagiAssistant_def defaults_def tryBlock_def prepareRequest_def exampleEnv_def
      exampleArgs_def getEnvironmentConfig_def resolveToken_def isValidTokenFormat_def trim_def
      isWhiteSpace_def getAvailableModels_def formatError_def modelListNotSet_def)

text \<open>
  Claim C3.  No error may leave \<^verbatim>\<open>kagiAssistant\<close>: every error is to end the call
  as a text result.  The code lets one through.  With a prompt, no model
  argument, and neither \<^verbatim>\<open>KAGI_DEFAULT_MODEL\<close> nor \<^verbatim>\<open>KAGI_MODEL_LIST\<close> set, the
  default \<^verbatim>\<open>model = getDefaultModel()\<close> throws before the \<^verbatim>\<open>try\<close> block is
  entered, and the promise is rejected with that error instead of being
  resolved with its text.
\<close>

theorem kagiAssistant_default_rejects:
  "kagiAssistant
     \<lparr>KAGI_DEFAULT_MODEL = None, KAGI_MODEL_LIST = None, KAGI_SEARCH_COOKIE = Some ''c'',
      KAGI_SESSION_TOKEN = Some ''t'', KAGI_SUMMARIZER_ENGINE = None, tokenFile = ENOENT\<rparr>
     exampleWorld None
     \<lparr>prompt_arg = Some ''hi'', new_conversation_arg = None, model_arg = None,
      internet_access_arg = None, format_arg = None\<rparr> =
   (Rejected (Error modelListNotSet), None)"
  by (simp add: kagiAssistant_def defaults_def getDefaultModel_def getAvailableModels_def)

section \<open>Model resolution\<close>

text \<open>
  Claim C6, amended.  \<^verbatim>\<open>getAvailableModels\<close> fails exactly when the variable
  \<^verbatim>\<open>KAGI_MODEL_LIST\<close> is unset or the empty string, and then with the error
  that says that the variable is not set.  A call of \<^verbatim>\<open>kagiAssistant\<close> with a
  prompt and a session token then ends with this error for every model
  argument: returned as text, or thrown by the default of the parameter when
  no model is given and no default model is configured.
\<close>

theorem model_list_not_set:
  "((\<exists>err. getAvailableModels e = Inl err) = (KAGI_MODEL_LIST e = None \<or> KAGI_MODEL_LIST e = Some [])) \<and>
   (\<forall>err. getAvailableModels e = Inl err \<longrightarrow> err = Error modelListNotSet) \<and>
   ((KAGI_MODEL_LIST e = None \<or> KAGI_MODEL_LIST e = Some []) \<and> truthyStr (prompt_arg a) \<and>
      (\<exists>cfg. getEnvironmentConfig e = Inr cfg) \<longrightarrow>
    kagiAssistant e w threadId a = (Returned (JStr (formatError (Error modelListNotSet))), threadId) \<or>
    kagiAssistant e w threadId a = (Rejected (Error modelListNotSet), threadId))"
proof -
  have one: "(\<exists>err. getAvailableModels e = Inl err) = (KAGI_MODEL_LIST e = None \<or> KAGI_MODEL_LIST e = Some [])"
    by (auto simp: getAvailableModels_def split: option.splits)
  have two: "\<forall>err. getAvailableModels e = Inl err \<longrightarrow> err = Error modelListNotSet"
    by (auto simp: getAvailableModels_def split: option.splits if_splits)
  have three: "kagiAssistant e w threadId a = (Returned (JStr (formatError (Error modelListNotSet))), threadId) \<or>
    kagiAssistant e w threadId a = (Rejected (Error modelListNotSet), threadId)"
    if unset: "KAGI_MODEL_LIST e = None \<or> KAGI_MODEL_LIST e = Some []"
      and p: "truthyStr (prompt_arg a)" and c: "\<exists>cfg. getEnvironmentConfig e = Inr cfg"
  proof -
    from unset have g: "getAvailableModels e = Inl (Error modelListNotSet)"
      by (auto simp: getAvailableModels_def)
    from p obtain q where q: "prompt_arg a = Some q" "q \<noteq> []"
      by (cases "prompt_arg a") auto
    from c obtain cfg where cfg: "getEnvironmentConfig e = Inr cfg" by blast
    have pr: "prepareRequest e w threadId (prompt_arg a) nc m ia = (Inl (Error modelListNotSet), threadId)" for nc m ia
      by (simp add: prepareRequest_def q cfg g)
    have tb: "tryBlock e w threadId (prompt_arg a) nc m ia f = (Inl (Error modelListNotSet), threadId)" for nc m ia f
      by (simp add: tryBlock_def pr)
    show ?thesis
      by (cases "model_arg a"; cases "getDefaultModel e")
         (auto simp: kagiAssistant_def defaults_def tb getDefaultModel_def g Let_def split: if_splits)
  qed
  from one two three show ?thesis by blast
qed

theorem model_list_not_set_witness:
  "getAvailableModels (exampleEnv\<lparr>KAGI_MODEL_LIST := None\<rparr>) = Inl (Error modelListNotSet) \<and>
   kagiAssistant (exampleEnv\<lparr>KAGI_MODEL_LIST := None\<rparr>) exampleWorld None (exampleArgs\<lparr>model_arg := Some ''a''\<rparr>) =
     (Returned (JStr (''Error: '' @ modelListNotSet)), None)"
proof -
  have cfg: "\<exists>cfg. getEnvironmentConfig (exampleEnv\<lparr>KAGI_MODEL_LIST := None\<rparr>) = Inr cfg"
    by (simp add: exampleEnv_def getEnvironmentConfig_def resolveToken_def isValidTokenFormat_def
        trim_def isWhiteSpace_def)
  have nr: "kagiAssistant (exampleEnv\<lparr>KAGI_MODEL_LIST := None\<rparr>) exampleWorld None (exampleArgs\<lparr>model_arg := Some ''a''\<rparr>) \<noteq>
      (Rejected (Error modelListNotSet), None)"
    by (simp add: kagiAssistant_def defaults_def exampleArgs_def Let_def split: prod.splits sum.splits)
  have fe: "formatError (Error modelListNotSet) = ''Error: '' @ modelListNotSet"
    by (simp add: formatError_def modelListNotSet_def)
  from model_list_not_set [of "exampleEnv\<lparr>KAGI_MODEL_LIST := None\<rparr>" "exampleArgs\<lparr>model_arg := Some ''a''\<rparr>" exampleWorld None]
    cfg nr fe
  show ?thesis by (auto simp: exampleEnv_def exampleArgs_def)
qed

text \<open>
  The claim as it stands fails: a value of \<^verbatim>\<open>KAGI_MODEL_LIST\<close> that holds no
  model name, such as a single comma, gives the empty allow-list and no error.
\<close>

theorem model_list_without_names:
  "getAvailableModels
     \<lparr>KAGI_DEFAULT_MODEL = None, KAGI_MODEL_LIST = Some '','', KAGI_SEARCH_COOKIE = Some ''c'',
      KAGI_SESSION_TOKEN = Some ''t'', KAGI_SUMMARIZER_ENGINE = None, tokenFile = ENOENT\<rparr> = Inr []"
  by (simp add: getAvailableModels_def trim_def)

lemma resolveToken_nonempty: "resolveToken e = Inr t \<Longrightarrow> t \<noteq> []"
  by (auto simp: resolveToken_def isValidTokenFormat_def Let_def
      split: if_splits sum.splits option.splits)

lemma getEnvironmentConfig_token: "getEnvironmentConfig e = Inr cfg \<Longrightarrow> cfg_token cfg \<noteq> []"
  by (auto simp: getEnvironmentConfig_def split: sum.splits dest: resolveToken_nonempty)

text \<open>
  Claim C8.  A call that names a model outside the allow-list fails with the
  error whose message lists the allowed models.  The checks that come first
  in the function (prompt, session token, search cookie, model list) have
  passed; the session is left as it was.
\<close>

theorem invalid_model_rejected:
  assumes "prompt_arg a = Some p" and "p \<noteq> []"
    and "getEnvironmentConfig e = Inr cfg"
    and "KAGI_SEARCH_COOKIE e = Some c" and "c \<noteq> []"
    and "getAvailableModels e = Inr availableModels"
    and "model_arg a = Some m" and "m \<notin> set availableModels"
  shows \<open>kagiAssistant e w threadId a =
           (Returned (JStr (''Error: Invalid model "'' @ m @ ''". Available models: '' @
                            join '', '' availableModels)),
            threadId)\<close>
proof -
  have pr: "prepareRequest e w threadId (prompt_arg a) nc (Some m) ia =
      (Inl (Error (invalidModel m availableModels)), threadId)" for nc ia
    using assms getEnvironmentConfig_token [OF assms(3)]
    by (simp add: prepareRequest_def)
  have tb: "tryBlock e w threadId (prompt_arg a) nc (Some m) ia f =
      (Inl (Error (invalidModel m availableModels)), threadId)" for nc ia f
    by (simp add: tryBlock_def pr)
  show ?thesis
    using assms(7) by (simp add: kagiAssistant_def defaults_def tb Let_def formatError_def invalidModel_def)
qed

theorem invalid_model_rejected_witness:
  \<open>kagiAssistant exampleEnv exampleWorld None (exampleArgs\<lparr>model_arg := Some ''zzz''\<rparr>) =
     (Returned (JStr ''Error: Invalid model "zzz". Available models: a, b''), None)\<close>
proof -
  have cfg: "getEnvironmentConfig exampleEnv = Inr \<lparr>cfg_token = ''t'', cfg_engine = ''default''\<rparr>"
    by (simp add: exampleEnv_def getEnvironmentConfig_def resolveToken_def isValidTokenFormat_def
        trim_def isWhiteSpace_def)
  have ms: "getAvailableModels exampleEnv = Inr [''a'', ''b'']"
    by (simp add: exampleEnv_def getAvailableModels_def trim_def isWhiteSpace_def)
  from invalid_model_rejected [of "exampleArgs\<lparr>model_arg := Some ''zzz''\<rparr>" "''hi''" exampleEnv _ "''c''" "[''a'', ''b'']" "''zzz''" exampleWorld None, OF _ _ cfg _ _ ms]
  show ?thesis by (simp add: exampleArgs_def exampleEnv_def)
qed

section \<open>A finished message without a reply\<close>

text \<open>
  Claim C10.  A message document whose \<^verbatim>\<open>state\<close> is \<^verbatim>\<open>done\<close> and whose
  \<^verbatim>\<open>reply\<close> is the empty string is not a success: the empty string is falsy,
  and the exchange fails with the error of an unexpected format.
\<close>

theorem done_with_empty_reply:
  assumes "extractJson responseText ''new_message.json:'' = Some messageJson"
    and "jsonParse w messageJson = Some messageData"
    and "getProp messageData ''state'' = Inr (Some (JStr ''done''))"
    and "getProp messageData ''reply'' = Inr (Some (JStr []))"
  shows "readMessage w format responseText = Inl (Error ''Assistant response not in expected format'')"
  using assms extractJson_nonempty [OF assms(1)]
  by (simp add: readMessage_def)

theorem done_with_empty_reply_witness:
  \<open>readMessage exampleWorld ''markdown'' ''new_message.json: {"state":"done","reply":""}'' =
     Inl (Error ''Assistant response not in expected format'')\<close>
proof -
  have x: \<open>extractJson ''new_message.json: {"state":"done","reply":""}'' ''new_message.json:'' =
      Some ''{"state":"done","reply":""}''\<close>
    by (simp add: extractJson_def lastIndexOf_def trim_def substring_def indexOf_def isWhiteSpace_def)
  have p: \<open>jsonParse exampleWorld ''{"state":"done","reply":""}'' =
      Some (JObj [(''state'', JStr ''done''), (''reply'', JStr [])])\<close>
    by (simp add: exampleWorld_def exampleParse_def)
  show ?thesis
    by (rule done_with_empty_reply [OF x p]) simp_all
qed

end
